theory Spec2Isabelle
  imports Main "HOL-Library.Word"
begin

section \<open>Bytes, buffers and strings\<close>

text \<open>
  A Node \<open>Buffer\<close> is a list of bytes. A JavaScript string is a list of UTF-16 code
  units. Lengths, offsets and the values of length fields are JavaScript numbers that only
  ever hold non-negative integers here: they are \<open>nat\<close>.
\<close>

type_synonym byte = "8 word"
type_synonym buffer = "byte list"
type_synonym jsstring = "16 word list"

text \<open>
  The errors of the source: the three \<open>new Error(...)\<close> values it creates
  (\<open>'Not a valid IP'\<close>, \<open>'Access denied'\<close>, \<open>'Timeout'\<close>) and the \<open>RangeError\<close>
  that the Buffer methods throw on a value or an offset out of range.
\<close>

datatype error = NotAValidIP | AccessDenied | Timeout | RangeError

definition thenE :: "error + 'a \<Rightarrow> ('a \<Rightarrow> error + 'b) \<Rightarrow> error + 'b" where
  "thenE r f = (case r of Inl e \<Rightarrow> Inl e | Inr v \<Rightarrow> f v)"

text \<open>A string literal of the source, as UTF-16 code units.\<close>

definition js :: "string \<Rightarrow> jsstring" where
  "js s = map of_char s"

subsection \<open>UTF-8, as \<open>Buffer.from(string)\<close>, \<open>buf.write(string)\<close> and \<open>buf.toString()\<close> use it\<close>

text \<open>
  The code points of a string: a high surrogate followed by a low one is one code point
  above \<open>0xFFFF\<close>, a lone surrogate is written as \<open>U+FFFD\<close>.
\<close>

definition is_high :: "16 word \<Rightarrow> bool" where
  "is_high u = (0xD800 \<le> unat u \<and> unat u \<le> 0xDBFF)"

definition is_low :: "16 word \<Rightarrow> bool" where
  "is_low u = (0xDC00 \<le> unat u \<and> unat u \<le> 0xDFFF)"

definition unit_cp :: "16 word \<Rightarrow> nat" where
  "unit_cp u = (if is_high u \<or> is_low u then 0xFFFD else unat u)"

fun code_points :: "jsstring \<Rightarrow> nat list" where
  "code_points [] = []"
| "code_points [u] = [unit_cp u]"
| "code_points (u # l # us) =
     (if is_high u \<and> is_low l
      then (0x10000 + (unat u - 0xD800) * 1024 + (unat l - 0xDC00)) # code_points us
      else unit_cp u # code_points (l # us))"

definition utf8_bytes :: "nat \<Rightarrow> buffer" where
  "utf8_bytes cp =
     (if cp < 0x80 then [of_nat cp]
      else if cp < 0x800 then [of_nat (0xC0 + cp div 64), of_nat (0x80 + cp mod 64)]
      else if cp < 0x10000 then
        [of_nat (0xE0 + cp div 4096), of_nat (0x80 + cp div 64 mod 64),
         of_nat (0x80 + cp mod 64)]
      else
        [of_nat (0xF0 + cp div 262144), of_nat (0x80 + cp div 4096 mod 64),
         of_nat (0x80 + cp div 64 mod 64), of_nat (0x80 + cp mod 64)])"

text \<open>The UTF-8 form of a string, one chunk of bytes for each character.\<close>

definition utf8_chunks :: "jsstring \<Rightarrow> buffer list" where
  "utf8_chunks s = map utf8_bytes (code_points s)"

text \<open>\<open>Buffer.from(string)\<close>: the UTF-8 bytes of the string.\<close>

definition Buffer_from :: "jsstring \<Rightarrow> buffer" where
  "Buffer_from s = concat (utf8_chunks s)"

text \<open>
  The UTF-8 decoder behind \<open>buf.toString()\<close>: the arguments are the code point collected
  so far, the number of continuation bytes still expected and the range allowed for the
  next byte. A byte that cannot continue or start a sequence gives \<open>U+FFFD\<close>; a byte
  that ends a sequence early is looked at again as the start of the next one. The decoder
  never fails.
\<close>

fun utf8_decode :: "nat \<Rightarrow> nat \<Rightarrow> nat \<Rightarrow> nat \<Rightarrow> buffer \<Rightarrow> nat list" where
  "utf8_decode cp need lo hi [] = (if need \<noteq> 0 then [0xFFFD] else [])"
| "utf8_decode cp need lo hi (b # bs) =
     (if need \<noteq> 0 \<and> lo \<le> unat b \<and> unat b \<le> hi then
        (if need = 1 then (cp * 64 + unat b mod 64) # utf8_decode 0 0 0x80 0xBF bs
         else utf8_decode (cp * 64 + unat b mod 64) (need - 1) 0x80 0xBF bs)
      else
        (if need \<noteq> 0 then [0xFFFD] else []) @
        (if unat b < 0x80 then unat b # utf8_decode 0 0 0x80 0xBF bs
         else if 0xC2 \<le> unat b \<and> unat b \<le> 0xDF then
           utf8_decode (unat b mod 32) 1 0x80 0xBF bs
         else if 0xE0 \<le> unat b \<and> unat b \<le> 0xEF then
           utf8_decode (unat b mod 16) 2 (if unat b = 0xE0 then 0xA0 else 0x80)
             (if unat b = 0xED then 0x9F else 0xBF) bs
         else if 0xF0 \<le> unat b \<and> unat b \<le> 0xF4 then
           utf8_decode (unat b mod 8) 3 (if unat b = 0xF0 then 0x90 else 0x80)
             (if unat b = 0xF4 then 0x8F else 0xBF) bs
         else 0xFFFD # utf8_decode 0 0 0x80 0xBF bs))"

definition cp_units :: "nat \<Rightarrow> jsstring" where
  "cp_units cp =
     (if cp < 0x10000 then [of_nat cp]
      else [of_nat (0xD800 + (cp - 0x10000) div 1024),
            of_nat (0xDC00 + (cp - 0x10000) mod 1024)])"

text \<open>\<open>buf.toString()\<close>: the buffer decoded as UTF-8.\<close>

definition toString :: "buffer \<Rightarrow> jsstring" where
  "toString buf = concat (map cp_units (utf8_decode 0 0 0x80 0xBF buf))"

subsection \<open>Base64, as \<open>buf.toString('base64')\<close> produces it\<close>

definition b64_alphabet :: "string" where
  "b64_alphabet = ''ABCDEFGHIJKLMNOPQRSTUVWXYZabcdefghijklmnopqrstuvwxyz0123456789+/''"

definition b64_char :: "nat \<Rightarrow> 16 word" where
  "b64_char i = of_char (b64_alphabet ! (i mod 64))"

fun toString_base64 :: "buffer \<Rightarrow> jsstring" where
  "toString_base64 [] = []"
| "toString_base64 [a] =
     [b64_char (unat a div 4), b64_char (unat a mod 4 * 16), 0x3D, 0x3D]"
| "toString_base64 [a, b] =
     [b64_char (unat a div 4), b64_char (unat a mod 4 * 16 + unat b div 16),
      b64_char (unat b mod 16 * 4), 0x3D]"
| "toString_base64 (a # b # c # rest) =
     [b64_char (unat a div 4), b64_char (unat a mod 4 * 16 + unat b div 16),
      b64_char (unat b mod 16 * 4 + unat c div 64), b64_char (unat c mod 64)]
     @ toString_base64 rest"

subsection \<open>The Buffer methods the client calls\<close>

definition alloc :: "nat \<Rightarrow> buffer" where
  "alloc n = replicate n 0"

text \<open>
  \<open>buf.writeUInt8(value, offset)\<close> and \<open>buf.writeUInt16LE(value, offset)\<close> throw a
  \<open>RangeError\<close> when the value does not fit or the bytes would lie outside the buffer.
\<close>

definition writeUInt8 :: "nat \<Rightarrow> nat \<Rightarrow> buffer \<Rightarrow> error + buffer" where
  "writeUInt8 v offset buf =
     (if v > 0xFF \<or> offset + 1 > length buf then Inl RangeError
      else Inr (buf[offset := of_nat v]))"

definition writeUInt16LE :: "nat \<Rightarrow> nat \<Rightarrow> buffer \<Rightarrow> error + buffer" where
  "writeUInt16LE v offset buf =
     (if v > 0xFFFF \<or> offset + 2 > length buf then Inl RangeError
      else Inr (buf[offset := of_nat (v mod 256), offset + 1 := of_nat (v div 256)]))"

text \<open>\<open>buf.readUInt16LE(offset)\<close> throws a \<open>RangeError\<close> when it would read outside.\<close>

definition readUInt16LE :: "nat \<Rightarrow> buffer \<Rightarrow> error + nat" where
  "readUInt16LE offset buf =
     (if offset + 2 > length buf then Inl RangeError
      else Inr (unat (buf ! offset) + 256 * unat (buf ! (offset + 1))))"

text \<open>
  \<open>buf.write(string, offset)\<close> writes the UTF-8 form of the string from \<open>offset\<close> on,
  as many whole characters as fit in the rest of the buffer: a character that does not
  fit is not written, nor is anything after it.
\<close>

fun fit :: "nat \<Rightarrow> buffer list \<Rightarrow> buffer" where
  "fit n [] = []"
| "fit n (c # cs) = (if length c \<le> n then c @ fit (n - length c) cs else [])"

definition overwrite :: "nat \<Rightarrow> buffer \<Rightarrow> buffer \<Rightarrow> buffer" where
  "overwrite offset bytes buf = take offset buf @ bytes @ drop (offset + length bytes) buf"

definition write_utf8 :: "jsstring \<Rightarrow> nat \<Rightarrow> buffer \<Rightarrow> error + buffer" where
  "write_utf8 s offset buf =
     (if offset > length buf then Inl RangeError
      else Inr (overwrite offset (fit (length buf - offset) (utf8_chunks s)) buf))"

text \<open>\<open>buf.slice(start, end)\<close> clamps both ends to the buffer.\<close>

definition slice_buffer :: "nat \<Rightarrow> nat \<Rightarrow> buffer \<Rightarrow> buffer" where
  "slice_buffer start stop buf = drop start (take stop buf)"

section \<open>The codec of \<open>SamsungTVClient\<close>\<close>

definition toBase64 :: "jsstring \<Rightarrow> jsstring" where
  "toBase64 s = toString_base64 (Buffer_from s)"

definition createMessage :: "buffer \<Rightarrow> error + buffer" where
  "createMessage payload =
     (let name = js ''iphone.iapp.samsung'';
          nameSize = length name;
          payloadSize = length payload;
          buffLen = 5 + nameSize + payloadSize;
          message = alloc buffLen;
          offset = 1
      in thenE (writeUInt16LE nameSize offset message) (\<lambda>message.
         let offset = offset + 2
         in thenE (write_utf8 name offset message) (\<lambda>message.
            let offset = offset + nameSize
            in thenE (writeUInt16LE payloadSize offset message) (\<lambda>message.
               let offset = offset + 2
               in write_utf8 (toString payload) offset message))))"

definition createAuthPayload ::
  "(jsstring \<Rightarrow> nat) \<Rightarrow> jsstring \<Rightarrow> jsstring \<Rightarrow> jsstring \<Rightarrow> error + buffer" where
  "createAuthPayload isIP ip uid name =
     (if isIP ip = 0 then Inl NotAValidIP
      else
        let ipBase64 = toBase64 ip;
            ipSize = length ipBase64;
            idBase64 = toBase64 uid;
            idSize = length idBase64;
            nameBase64 = toBase64 name;
            nameSize = length nameBase64;
            buffLen = 8 + ipSize + idSize + nameSize;
            payload = alloc buffLen;
            offset = 0
        in thenE (writeUInt8 0x64 offset payload) (\<lambda>payload.
           let offset = offset + 2
           in thenE (writeUInt16LE ipSize offset payload) (\<lambda>payload.
              let offset = offset + 2
              in thenE (write_utf8 ipBase64 offset payload) (\<lambda>payload.
                 let offset = offset + ipSize
                 in thenE (writeUInt16LE idSize offset payload) (\<lambda>payload.
                    let offset = offset + 2
                    in thenE (write_utf8 idBase64 offset payload) (\<lambda>payload.
                       let offset = offset + idSize
                       in thenE (writeUInt16LE nameSize offset payload) (\<lambda>payload.
                          let offset = offset + 2
                          in write_utf8 nameBase64 offset payload)))))))"

definition createKeyPayload :: "jsstring \<Rightarrow> error + buffer" where
  "createKeyPayload key =
     (let keyBase64 = toBase64 key;
          keySize = length keyBase64;
          buffLen = 5 + keySize;
          payload = alloc buffLen;
          offset = 3
      in thenE (writeUInt16LE keySize offset payload) (\<lambda>payload.
         let offset = offset + 2
         in write_utf8 keyBase64 offset payload))"

definition parseResponse :: "buffer \<Rightarrow> error + buffer" where
  "parseResponse response =
     (let offset = 1
      in thenE (readUInt16LE offset response) (\<lambda>stringLen.
         let offset = offset + 2 + stringLen
         in thenE (readUInt16LE offset response) (\<lambda>payloadSize.
            let offset = offset + 2
            in Inr (slice_buffer offset (payloadSize + offset) response))))"

section \<open>\<open>net.isIP\<close>\<close>

text \<open>
  \<open>net.isIP\<close> belongs to the platform, not to the client: it returns 4 for an IPv4
  literal, 6 for an IPv6 literal and 0 for any other string. The client's functions take
  it as the parameter \<open>isIP\<close>, so that what is proved of them holds for every such
  function. Where a function is run on a concrete address, the instance \<open>isIP_v4only\<close>
  stands in: it knows the dotted-decimal literals (four numbers from 0 to 255, no leading
  zero) and takes any other string as no literal, which is what \<open>net.isIP\<close> does on
  every string that is not an IPv6 literal.
\<close>

fun split_dots :: "jsstring \<Rightarrow> jsstring list" where
  "split_dots [] = [[]]"
| "split_dots (u # us) =
     (if u = 0x2E then [] # split_dots us
      else (case split_dots us of [] \<Rightarrow> [[u]] | p # ps \<Rightarrow> (u # p) # ps))"

definition is_digit :: "16 word \<Rightarrow> bool" where
  "is_digit u = (0x30 \<le> unat u \<and> unat u \<le> 0x39)"

definition decimal :: "jsstring \<Rightarrow> nat" where
  "decimal ds = foldl (\<lambda>n u. 10 * n + (unat u - 0x30)) 0 ds"

definition v4_segment :: "jsstring \<Rightarrow> bool" where
  "v4_segment ds =
     (1 \<le> length ds \<and> length ds \<le> 3 \<and> list_all is_digit ds \<and>
      (length ds = 1 \<or> hd ds \<noteq> 0x30) \<and> decimal ds \<le> 255)"

definition isIP_v4only :: "jsstring \<Rightarrow> nat" where
  "isIP_v4only s =
     (let parts = split_dots s
      in if length parts = 4 \<and> list_all v4_segment parts then 4 else 0)"

section \<open>The client\<close>

text \<open>
  A promise is pending until it is resolved or rejected; once settled, later calls of
  \<open>resolve\<close> and \<open>reject\<close> change nothing.
\<close>

datatype 'a promise = Pending | Resolved 'a | Rejected error

definition resolve :: "'a \<Rightarrow> 'a promise \<Rightarrow> 'a promise" where
  "resolve v p = (case p of Pending \<Rightarrow> Resolved v | _ \<Rightarrow> p)"

definition reject :: "error \<Rightarrow> 'a promise \<Rightarrow> 'a promise" where
  "reject e p = (case p of Pending \<Rightarrow> Rejected e | _ \<Rightarrow> p)"

text \<open>
  The socket is the platform's \<open>net.Socket\<close>. The client's state holds the calls made
  on it, in order: \<open>socket.connect(port, host, _)\<close>, \<open>socket.on(event, _)\<close> and
  \<open>socket.write(buffer)\<close>.
\<close>

datatype socket_call = Connect nat jsstring | On string | Write buffer

record client =
  socket :: "socket_call list"
  delay :: int

text \<open>
  What the socket does with one \<open>write\<close> is the environment's choice: the boolean that
  the call returns, and whether the write fails before the callbacks of the promise run.
\<close>

record write_outcome =
  returned :: bool
  failed :: bool

text \<open>
  A socket on which \<open>connect\<close> was never called has no handle, and every write on it
  fails. A write that fails makes the socket emit \<open>'error'\<close>. When no listener is
  registered for \<open>'error'\<close>, the event is an uncaught exception: the process ends, and
  no callback of a promise runs any more.
\<close>

definition connect_called :: "client \<Rightarrow> bool" where
  "connect_called this =
     list_ex (\<lambda>c. case c of Connect port host \<Rightarrow> True | _ \<Rightarrow> False) (socket this)"

definition unhandled_error :: "write_outcome \<Rightarrow> client \<Rightarrow> bool" where
  "unhandled_error w this =
     ((failed w \<or> \<not> connect_called this) \<and> On ''error'' \<notin> set (socket this))"

text \<open>\<open>constructor (delay = 0)\<close>\<close>

definition SamsungTVClient :: "int option \<Rightarrow> client" where
  "SamsungTVClient delay_arg =
     \<lparr>socket = [], delay = (case delay_arg of None \<Rightarrow> 0 | Some d \<Rightarrow> d)\<rparr>"

text \<open>\<open>accessResponse\<close>\<close>

definition granted :: buffer where
  "granted = [0x64, 0x00, 0x01, 0x00]"

definition denied :: buffer where
  "denied = [0x64, 0x00, 0x00, 0x00]"

definition await :: buffer where
  "await = [0x0A, 0x00, 0x02, 0x00, 0x00, 0x00]"

definition timeout :: buffer where
  "timeout = [0x65, 0x00]"

text \<open>
  \<open>connect\<close>: the promise as the executor leaves it, and the client after the
  executor's calls on the socket. There is no \<open>return\<close> after the \<open>reject\<close>.
\<close>

definition connect :: "(jsstring \<Rightarrow> nat) \<Rightarrow> jsstring \<Rightarrow> client \<Rightarrow> unit promise \<times> client" where
  "connect isIP ip this =
     (let p = (if isIP ip = 0 then reject NotAValidIP Pending else Pending);
          this = this\<lparr>socket := socket this @ [Connect 55000 ip]\<rparr>;
          this = this\<lparr>socket := socket this @ [On ''error'']\<rparr>
      in (p, this))"

text \<open>
  \<open>authenticate\<close>: an exception thrown inside the executor (by \<open>createAuthPayload\<close>
  or \<open>createMessage\<close>, before \<open>socket.write\<close> is called) rejects the promise if it is
  still pending, and ends the executor.
\<close>

definition authenticate ::
  "(jsstring \<Rightarrow> nat) \<Rightarrow> jsstring \<Rightarrow> jsstring \<Rightarrow> jsstring \<Rightarrow> client \<Rightarrow> string promise \<times> client" where
  "authenticate isIP clientIP clientUID clientName this =
     (let p = (if isIP clientIP = 0 then reject NotAValidIP Pending else Pending)
      in case thenE (createAuthPayload isIP clientIP clientUID clientName) createMessage of
           Inl e \<Rightarrow> (reject e p, this)
         | Inr message \<Rightarrow>
             (p, this\<lparr>socket := socket this @ [Write message, On ''data'']\<rparr>))"

text \<open>
  The listener that \<open>authenticate\<close> registers for \<open>'data'\<close>, run on one chunk of
  received bytes with the promise of the call. An exception of \<open>parseResponse\<close> leaves
  the listener; it does not touch the promise.
\<close>

definition on_data :: "buffer \<Rightarrow> string promise \<Rightarrow> error + string promise" where
  "on_data data p =
     thenE (parseResponse data) (\<lambda>payload.
       Inr (if payload = granted then resolve ''Success'' p
            else if payload = denied then reject AccessDenied p
            else if payload = timeout then reject Timeout p
            else p))"

text \<open>The listener run on the chunks the socket delivers, one after the other.\<close>

fun on_data_all :: "buffer list \<Rightarrow> string promise \<Rightarrow> error + string promise" where
  "on_data_all [] p = Inr p"
| "on_data_all (d # ds) p = thenE (on_data d p) (on_data_all ds)"

text \<open>\<open>send\<close>: the promise has no \<open>reject\<close>; it resolves with what \<open>socket.write\<close> returns.\<close>

definition send :: "buffer \<Rightarrow> write_outcome \<Rightarrow> client \<Rightarrow> bool promise \<times> client" where
  "send buffer w this =
     (resolve (returned w) Pending, this\<lparr>socket := socket this @ [Write buffer]\<rparr>)"

text \<open>
  \<open>sendMessage\<close>: the result is the promise once the timer has fired, the delay given
  to \<open>setTimeout\<close> (none if the \<open>then\<close> callback never runs) and the client. The
  parameter is \<open>None\<close> when the caller passes no delay, and \<open>delay || this.delay\<close>
  takes \<open>this.delay\<close> when \<open>delay\<close> is 0. The \<open>then\<close> callback runs after the
  executor of \<open>send\<close>: when the write has failed and nothing listens for \<open>'error'\<close>,
  the process has ended by then, no timer is set and the promise stays pending.
\<close>

definition sendMessage ::
  "buffer \<Rightarrow> int option \<Rightarrow> write_outcome \<Rightarrow> client \<Rightarrow> unit promise \<times> int option \<times> client" where
  "sendMessage message delay_arg w this =
     (let d = (case delay_arg of None \<Rightarrow> delay this | Some d \<Rightarrow> d);
          unhandled = unhandled_error w this;
          (sent, this) = send message w this
      in if unhandled then (Pending, None, this)
         else case sent of
           Resolved _ \<Rightarrow> (resolve () Pending, Some (if d \<noteq> 0 then d else delay this), this)
         | _ \<Rightarrow> (Pending, None, this))"

text \<open>
  \<open>sendMessageByPayload\<close>: an exception of \<open>createMessage\<close> is thrown to the caller
  before any promise exists.
\<close>

definition sendMessageByPayload ::
  "buffer \<Rightarrow> int option \<Rightarrow> write_outcome \<Rightarrow> client
     \<Rightarrow> error + (unit promise \<times> int option \<times> client)" where
  "sendMessageByPayload payload delay_arg w this =
     (let d = (case delay_arg of None \<Rightarrow> delay this | Some d \<Rightarrow> d)
      in thenE (createMessage payload) (\<lambda>message. Inr (sendMessage message (Some d) w this)))"

section \<open>Notions used to state the properties\<close>

text \<open>The two bytes \<open>LL LH\<close> of a little-endian unsigned 16-bit length field.\<close>

definition u16le :: "nat \<Rightarrow> buffer" where
  "u16le v = [of_nat (v mod 256), of_nat (v div 256)]"

text \<open>A string of ASCII characters only.\<close>

definition ascii :: "jsstring \<Rightarrow> bool" where
  "ascii s = (\<forall>u \<in> set s. unat u < 0x80)"

section \<open>Writing into a zero-filled buffer\<close>

lemma replicate_two:
  assumes "2 \<le> k"
  shows "replicate k x = [x, x] @ replicate (k - 2) x"
proof (cases k)
  case 0
  with assms show ?thesis by simp
next
  case (Suc k')
  with assms show ?thesis by (cases k') simp_all
qed

lemma writeUInt8_zeros:
  "v \<le> 0xFF \<Longrightarrow> 2 \<le> k \<Longrightarrow>
   writeUInt8 v 0 (replicate k 0) = Inr ([of_nat v, 0] @ replicate (k - 2) 0)"
  by (simp add: writeUInt8_def replicate_two [of k])

lemma writeUInt16LE_zeros:
  assumes "offset = length pre" "v \<le> 0xFFFF" "2 \<le> k"
  shows "writeUInt16LE v offset (pre @ replicate k 0) = Inr ((pre @ u16le v) @ replicate (k - 2) 0)"
  using assms by (simp add: writeUInt16LE_def u16le_def replicate_two [of k] list_update_append)

lemma writeUInt16LE_too_large:
  "0xFFFF < v \<Longrightarrow> writeUInt16LE v offset buf = Inl RangeError"
  by (simp add: writeUInt16LE_def)

lemma fit_all: "length (concat cs) \<le> n \<Longrightarrow> fit n cs = concat cs"
  by (induction cs arbitrary: n) auto

lemma overwrite_zeros:
  "length bs \<le> k \<Longrightarrow>
   overwrite (length pre) bs (pre @ replicate k (0::byte)) = (pre @ bs) @ replicate (k - length bs) 0"
  by (simp add: overwrite_def)

lemma write_utf8_zeros:
  assumes "offset = length pre" "length (Buffer_from s) \<le> k"
  shows "write_utf8 s offset (pre @ replicate k 0) =
         Inr ((pre @ Buffer_from s) @ replicate (k - length (Buffer_from s)) 0)"
  using assms by (simp add: write_utf8_def Buffer_from_def fit_all overwrite_zeros)

lemma ascii_code_points: "ascii s \<Longrightarrow> code_points s = map unat s"
  by (induction s rule: code_points.induct)
     (auto simp: ascii_def unit_cp_def is_high_def is_low_def)

lemma ascii_Buffer_from: "ascii s \<Longrightarrow> Buffer_from s = map (\<lambda>u. of_nat (unat u)) s"
  by (simp add: Buffer_from_def utf8_chunks_def ascii_code_points)
     (induction s; simp add: ascii_def utf8_bytes_def)

lemma ascii_Buffer_from_length: "ascii s \<Longrightarrow> length (Buffer_from s) = length s"
  by (simp add: ascii_Buffer_from)

lemma b64_alphabet_ascii: "\<forall>c \<in> set b64_alphabet. unat (of_char c :: 16 word) < 0x80"
  by (simp add: b64_alphabet_def)

lemma b64_char_ascii: "unat (b64_char i) < 0x80"
proof -
  have "length b64_alphabet = 64" by (simp add: b64_alphabet_def)
  then have "b64_alphabet ! (i mod 64) \<in> set b64_alphabet" by simp
  then show ?thesis using b64_alphabet_ascii by (simp add: b64_char_def)
qed

lemma ascii_toString_base64: "ascii (toString_base64 bs)"
  by (induction bs rule: toString_base64.induct) (simp_all add: ascii_def b64_char_ascii)

lemma length_toString_base64: "length (toString_base64 bs) = 4 * ((length bs + 2) div 3)"
proof (induction bs rule: toString_base64.induct)
  case (4 a b c rest)
  have "(5 + length rest) div 3 = Suc ((Suc (Suc (length rest))) div 3)" by arith
  with 4 show ?case by simp
qed simp_all

lemma ascii_toBase64: "ascii (toBase64 s)"
  by (simp add: toBase64_def ascii_toString_base64)

lemma length_toBase64: "length (toBase64 s) = 4 * ((length (Buffer_from s) + 2) div 3)"
  by (simp add: toBase64_def length_toString_base64)


lemma base64_bytes_length: "length (Buffer_from (toBase64 s)) = length (toBase64 s)"
  by (simp add: ascii_Buffer_from_length ascii_toBase64)

section \<open>The authentication payload\<close>

lemma createAuthPayload_result:
  assumes ip: "isIP ip \<noteq> 0"
  shows "createAuthPayload isIP ip uid name =
         (if length (Buffer_from (toBase64 ip)) \<le> 0xFFFF
             \<and> length (Buffer_from (toBase64 uid)) \<le> 0xFFFF
             \<and> length (Buffer_from (toBase64 name)) \<le> 0xFFFF
          then Inr ([0x64, 0x00]
              @ u16le (length (Buffer_from (toBase64 ip))) @ Buffer_from (toBase64 ip)
              @ u16le (length (Buffer_from (toBase64 uid))) @ Buffer_from (toBase64 uid)
              @ u16le (length (Buffer_from (toBase64 name))) @ Buffer_from (toBase64 name))
          else Inl RangeError)"
proof -
  define s1 where "s1 = toBase64 ip"
  define s2 where "s2 = toBase64 uid"
  define s3 where "s3 = toBase64 name"
  define b1 where "b1 = Buffer_from s1"
  define b2 where "b2 = Buffer_from s2"
  define b3 where "b3 = Buffer_from s3"
  have l1: "length b1 = length s1" and l2: "length b2 = length s2" and l3: "length b3 = length s3"
    by (simp_all add: b1_def b2_def b3_def s1_def s2_def s3_def base64_bytes_length)
  define p1 where "p1 = [0x64, 0x00 :: byte]"
  define p2 where "p2 = p1 @ u16le (length s1)"
  define p3 where "p3 = p2 @ b1"
  define p4 where "p4 = p3 @ u16le (length s2)"
  define p5 where "p5 = p4 @ b2"
  define p6 where "p6 = p5 @ u16le (length s3)"
  define p7 where "p7 = p6 @ b3"
  have lp: "length p1 = 2" "length p2 = 4" "length p3 = 4 + length s1"
    "length p4 = 6 + length s1" "length p5 = 6 + length s1 + length s2"
    "length p6 = 8 + length s1 + length s2"
    by (simp_all add: p1_def p2_def p3_def p4_def p5_def p6_def u16le_def l1 l2)
  have w1: "writeUInt8 0x64 0 (alloc (8 + length s1 + length s2 + length s3))
            = Inr (p1 @ replicate (6 + length s1 + length s2 + length s3) 0)"
    using writeUInt8_zeros [of "0x64" "8 + length s1 + length s2 + length s3"]
    by (simp add: alloc_def p1_def)
  have w2: "writeUInt16LE (length s1) (0 + 2) (p1 @ replicate (6 + length s1 + length s2 + length s3) 0)
            = Inr (p2 @ replicate (4 + length s1 + length s2 + length s3) 0)"
    if "length s1 \<le> 0xFFFF"
    using writeUInt16LE_zeros [of "0 + 2" p1 "length s1" "6 + length s1 + length s2 + length s3"] that
    by (simp add: lp p2_def)
  have w3: "write_utf8 s1 (0 + 2 + 2) (p2 @ replicate (4 + length s1 + length s2 + length s3) 0)
            = Inr (p3 @ replicate (4 + length s2 + length s3) 0)"
    using write_utf8_zeros [of "0 + 2 + 2" p2 s1 "4 + length s1 + length s2 + length s3"]
    by (simp add: lp p3_def l1 b1_def [symmetric])
  have w4: "writeUInt16LE (length s2) (0 + 2 + 2 + length s1) (p3 @ replicate (4 + length s2 + length s3) 0)
            = Inr (p4 @ replicate (2 + length s2 + length s3) 0)"
    if "length s2 \<le> 0xFFFF"
    using writeUInt16LE_zeros [of "0 + 2 + 2 + length s1" p3 "length s2" "4 + length s2 + length s3"] that
    by (simp add: lp p4_def)
  have w5: "write_utf8 s2 (0 + 2 + 2 + length s1 + 2) (p4 @ replicate (2 + length s2 + length s3) 0)
            = Inr (p5 @ replicate (2 + length s3) 0)"
    using write_utf8_zeros [of "0 + 2 + 2 + length s1 + 2" p4 s2 "2 + length s2 + length s3"]
    by (simp add: lp p5_def l2 b2_def [symmetric])
  have w6: "writeUInt16LE (length s3) (0 + 2 + 2 + length s1 + 2 + length s2) (p5 @ replicate (2 + length s3) 0)
            = Inr (p6 @ replicate (length s3) 0)"
    if "length s3 \<le> 0xFFFF"
    using writeUInt16LE_zeros [of "0 + 2 + 2 + length s1 + 2 + length s2" p5 "length s3" "2 + length s3"] that
    by (simp add: lp p6_def)
  have w7: "write_utf8 s3 (0 + 2 + 2 + length s1 + 2 + length s2 + 2) (p6 @ replicate (length s3) 0)
            = Inr p7"
    using write_utf8_zeros [of "0 + 2 + 2 + length s1 + 2 + length s2 + 2" p6 s3 "length s3"]
    by (simp add: lp p7_def l3 b3_def [symmetric])
  have big: "writeUInt16LE v offset buf = Inl RangeError" if "\<not> v \<le> 0xFFFF" for v offset buf
    using that by (simp add: writeUInt16LE_def)
  have unfolded: "createAuthPayload isIP ip uid name =
      thenE (writeUInt8 0x64 0 (alloc (8 + length s1 + length s2 + length s3))) (\<lambda>payload.
      thenE (writeUInt16LE (length s1) (0 + 2) payload) (\<lambda>payload.
      thenE (write_utf8 s1 (0 + 2 + 2) payload) (\<lambda>payload.
      thenE (writeUInt16LE (length s2) (0 + 2 + 2 + length s1) payload) (\<lambda>payload.
      thenE (write_utf8 s2 (0 + 2 + 2 + length s1 + 2) payload) (\<lambda>payload.
      thenE (writeUInt16LE (length s3) (0 + 2 + 2 + length s1 + 2 + length s2) payload)
        (write_utf8 s3 (0 + 2 + 2 + length s1 + 2 + length s2 + 2)))))))"
    unfolding createAuthPayload_def Let_def s1_def s2_def s3_def
    using ip by (simp only: if_False)
  have result: "createAuthPayload isIP ip uid name =
      (if length s1 \<le> 0xFFFF \<and> length s2 \<le> 0xFFFF \<and> length s3 \<le> 0xFFFF
       then Inr p7 else Inl RangeError)"
  proof (cases "length s1 \<le> 0xFFFF")
    case n1: True
    show ?thesis
    proof (cases "length s2 \<le> 0xFFFF")
      case n2: True
      show ?thesis
      proof (cases "length s3 \<le> 0xFFFF")
        case n3: True
        show ?thesis
          unfolding unfolded thenE_def
          using n1 n2 n3 by (simp only: w1 w2 w3 w4 w5 w6 w7 sum.case if_True simp_thms)
      next
        case n3: False
        show ?thesis
          unfolding unfolded thenE_def
          using n1 n2 n3 by (simp only: w1 w2 w3 w4 w5 big sum.case if_False simp_thms)
      qed
    next
      case n2: False
      show ?thesis
        unfolding unfolded thenE_def
        using n1 n2 by (simp only: w1 w2 w3 big sum.case if_False simp_thms)
    qed
  next
    case n1: False
    show ?thesis
      unfolding unfolded thenE_def
      using n1 by (simp only: w1 big sum.case if_False simp_thms)
  qed
  show ?thesis
    unfolding result
    by (simp add: p7_def p6_def p5_def p4_def p3_def p2_def p1_def
        b1_def b2_def b3_def s1_def s2_def s3_def base64_bytes_length)
qed

section \<open>Evaluating the codec on concrete inputs\<close>

lemma replicate_numeral_Cons: "replicate (numeral k) x = x # replicate (numeral k - 1) x"
  by (simp add: numeral_eq_Suc)

lemma list_update_Cons_numeral: "(x # xs)[numeral k := y] = x # xs[numeral k - 1 := y]"
  by (simp add: numeral_eq_Suc)

lemmas buffer_eval = replicate_numeral_Cons list_update_Cons_numeral
  alloc_def writeUInt8_def writeUInt16LE_def readUInt16LE_def write_utf8_def
  overwrite_def slice_buffer_def thenE_def Let_def js_def
  Buffer_from_def utf8_chunks_def utf8_bytes_def unit_cp_def is_high_def is_low_def
  toString_def cp_units_def toBase64_def b64_char_def b64_alphabet_def

lemmas isIP_eval = isIP_v4only_def v4_segment_def is_digit_def decimal_def

lemma isIP_v4only_valid: "isIP_v4only (js ''1.2.3.4'') = 4"
  by (simp add: isIP_eval js_def)

lemma isIP_v4only_invalid: "isIP_v4only (js ''999.999.999.999'') = 0"
  by (simp add: isIP_eval js_def)

lemma key_payload_example:
  "createKeyPayload (js ''KEY_VOLDOWN'') =
     Inr [0, 0, 0, 16, 0, 83, 48, 86, 90, 88, 49, 90, 80, 84, 69, 82, 80, 86, 48, 52, 61]"
  by (simp add: createKeyPayload_def buffer_eval)

lemma key_message_example:
  "createMessage [0, 0, 0, 16, 0, 83, 48, 86, 90, 88, 49, 90, 80, 84, 69, 82, 80, 86, 48, 52, 61] =
     Inr [0, 19, 0, 105, 112, 104, 111, 110, 101, 46, 105, 97, 112, 112, 46, 115, 97, 109,
          115, 117, 110, 103, 21, 0, 0, 0, 0, 16, 0, 83, 48, 86, 90, 88, 49, 90, 80, 84, 69,
          82, 80, 86, 48, 52, 61]"
  by (simp add: createMessage_def buffer_eval)

lemma auth_message_example:
  "thenE (createAuthPayload isIP_v4only (js ''1.2.3.4'') (js ''id'') (js ''name'')) createMessage =
     Inr [0, 19, 0, 105, 112, 104, 111, 110, 101, 46, 105, 97, 112, 112, 46,
        115, 97, 109, 115, 117, 110, 103, 32, 0, 100, 0, 12, 0, 77, 83, 52,
        121, 76, 106, 77, 117, 78, 65, 61, 61, 4, 0, 97, 87, 81, 61, 8, 0,
        98, 109, 70, 116, 90, 81, 61, 61]"
  by (simp add: createAuthPayload_def createMessage_def isIP_eval buffer_eval)

lemma authenticate_example:
  "authenticate isIP_v4only (js ''1.2.3.4'') (js ''id'') (js ''name'')
     (snd (connect isIP_v4only (js ''1.2.3.5'') (SamsungTVClient None))) =
     (Pending,
      \<lparr>socket = [Connect 55000 (js ''1.2.3.5''), On ''error'',
        Write [0, 19, 0, 105, 112, 104, 111, 110, 101, 46, 105, 97, 112, 112, 46,
        115, 97, 109, 115, 117, 110, 103, 32, 0, 100, 0, 12, 0, 77, 83, 52,
        121, 76, 106, 77, 117, 78, 65, 61, 61, 4, 0, 97, 87, 81, 61, 8, 0,
        98, 109, 70, 116, 90, 81, 61, 61], On ''data''], delay = 0\<rparr>)"
  unfolding authenticate_def auth_message_example
  by (simp add: isIP_v4only_valid SamsungTVClient_def connect_def Let_def)

section \<open>The envelope\<close>

text \<open>
  What \<open>createMessage\<close> builds when the payload, decoded as UTF-8 and encoded again, is
  no longer than it was, and what \<open>parseResponse\<close> finds in such an envelope. A payload
  that the decoding and encoding leave as it is comes back; a payload of ASCII bytes is
  one.
\<close>

lemma u16le_read:
  "v \<le> 0xFFFF \<Longrightarrow> unat (of_nat (v mod 256) :: byte) + 256 * unat (of_nat (v div 256) :: byte) = v"
  by (simp add: unat_of_nat)

lemma name_bytes:
  "Buffer_from (js ''iphone.iapp.samsung'') =
     [105, 112, 104, 111, 110, 101, 46, 105, 97, 112, 112, 46, 115, 97, 109, 115, 117, 110, 103]"
  by (simp add: buffer_eval)

lemma createMessage_result:
  assumes n: "length payload \<le> 0xFFFF"
    and fits: "length (Buffer_from (toString payload)) \<le> length payload"
  shows "createMessage payload =
         Inr ([0x00] @ u16le 19 @ Buffer_from (js ''iphone.iapp.samsung'')
              @ u16le (length payload) @ Buffer_from (toString payload)
              @ replicate (length payload - length (Buffer_from (toString payload))) 0)"
proof -
  define name where "name = js ''iphone.iapp.samsung''"
  define s where "s = toString payload"
  define k where "k = length payload"
  have ln: "length name = 19" by (simp add: name_def js_def)
  have lb: "length (Buffer_from name) = 19" unfolding name_def name_bytes by simp
  define p1 where "p1 = [0x00 :: byte]"
  define p2 where "p2 = p1 @ u16le 19"
  define p3 where "p3 = p2 @ Buffer_from name"
  define p4 where "p4 = p3 @ u16le k"
  define p5 where "p5 = p4 @ Buffer_from s"
  have lp: "length p1 = 1" "length p2 = 3" "length p3 = 22" "length p4 = 24"
    by (simp_all add: p1_def p2_def p3_def p4_def u16le_def lb)
  have a: "alloc (5 + 19 + k) = p1 @ replicate (23 + k) 0"
  proof -
    have "5 + 19 + k = Suc (23 + k)" by simp
    then show ?thesis by (simp only: alloc_def p1_def replicate_Suc append_Cons append_Nil)
  qed
  have w1: "writeUInt16LE 19 1 (p1 @ replicate (23 + k) 0) = Inr (p2 @ replicate (21 + k) 0)"
    using writeUInt16LE_zeros [of 1 p1 19 "23 + k"] by (simp add: lp p2_def)
  have w2: "write_utf8 name (1 + 2) (p2 @ replicate (21 + k) 0) = Inr (p3 @ replicate (2 + k) 0)"
    using write_utf8_zeros [of "1 + 2" p2 name "21 + k"] by (simp add: lp lb p3_def)
  have w3: "writeUInt16LE k (1 + 2 + 19) (p3 @ replicate (2 + k) 0) = Inr (p4 @ replicate k 0)"
    using writeUInt16LE_zeros [of "1 + 2 + 19" p3 k "2 + k"] n by (simp add: lp p4_def k_def)
  have w4: "write_utf8 s (1 + 2 + 19 + 2) (p4 @ replicate k 0)
            = Inr (p5 @ replicate (k - length (Buffer_from s)) 0)"
    using write_utf8_zeros [of "1 + 2 + 19 + 2" p4 s k] fits by (simp add: lp p5_def k_def s_def)
  have "createMessage payload = Inr (p5 @ replicate (k - length (Buffer_from s)) 0)"
    unfolding createMessage_def Let_def thenE_def
      name_def [symmetric] s_def [symmetric] k_def [symmetric] ln a
    by (simp only: w1 w2 w3 w4 sum.case)
  then show ?thesis
    by (simp add: p5_def p4_def p3_def p2_def p1_def name_def s_def k_def)
qed

lemma parseResponse_envelope:
  assumes "n \<le> 0xFFFF" "length data = n"
  shows "parseResponse ([0x00] @ u16le 19 @ Buffer_from (js ''iphone.iapp.samsung'')
              @ u16le n @ data) = Inr data"
  using assms unfolding name_bytes
  by (simp add: parseResponse_def readUInt16LE_def thenE_def slice_buffer_def u16le_def
      u16le_read nth_append)

lemma utf8_decode_ascii:
  "\<forall>b \<in> set payload. unat b < 0x80 \<Longrightarrow> utf8_decode 0 0 0x80 0xBF payload = map unat payload"
  by (induction payload) simp_all

lemma toString_ascii:
  assumes "\<forall>b \<in> set payload. unat b < 0x80"
  shows "toString payload = map (\<lambda>b. of_nat (unat b)) payload"
  using assms by (simp add: toString_def utf8_decode_ascii) (induction payload; simp add: cp_units_def)

lemma reencode_ascii:
  assumes "\<forall>b \<in> set payload. unat b < 0x80"
  shows "Buffer_from (toString payload) = payload"
proof -
  have u: "unat (ucast b :: 16 word) = unat b" for b :: byte
  proof -
    have "unat b < 2 ^ 16" using unsigned_less [of b, where ?'a = nat] by simp
    then show ?thesis by (simp add: unsigned_ucast_eq take_bit_nat_eq_self)
  qed
  have "ascii (toString payload)"
    using assms by (simp add: toString_ascii ascii_def u)
  then have "Buffer_from (toString payload) = map (\<lambda>u. of_nat (unat u)) (toString payload)"
    by (rule ascii_Buffer_from)
  also have "\<dots> = payload"
  proof -
    have v: "ucast (ucast b :: 16 word) = b" for b :: byte
      by (rule ucast_up_ucast_id) (simp add: is_up)
    show ?thesis by (simp add: toString_ascii [OF assms] comp_def v)
  qed
  finally show ?thesis .
qed

lemma roundtrip_valid_utf8:
  assumes "length payload \<le> 0xFFFF" "Buffer_from (toString payload) = payload"
  shows "thenE (createMessage payload) parseResponse = Inr payload"
  using createMessage_result [of payload] parseResponse_envelope [of "length payload" payload] assms
  by (simp add: thenE_def)

lemma roundtrip_ascii:
  assumes "length payload \<le> 0xFFFF" "\<forall>b \<in> set payload. unat b < 0x80"
  shows "thenE (createMessage payload) parseResponse = Inr payload"
  using assms by (simp add: roundtrip_valid_utf8 reencode_ascii)


text \<open>
  C1. Claimed: decoding the envelope of any payload of at most 65535 bytes gives the
  payload back. \<open>createMessage\<close> writes \<open>payload.toString()\<close>, the payload decoded
  as UTF-8 and encoded again, so a payload that is not valid UTF-8 is not written as it
  is: the envelope of the one-byte payload \<open>FF\<close> decodes to the payload \<open>00\<close>.
\<close>

theorem createMessage_not_inverted:
  "length [0xFF :: byte] \<le> 65535 \<and> thenE (createMessage [0xFF]) parseResponse = Inr [0x00]"
  by (simp add: createMessage_def parseResponse_def buffer_eval)

text \<open>
  The payloads that the client builds itself are hit as well: the key payload of a key of
  96 characters has the length byte \<open>80\<close>, which is not UTF-8, and its envelope does
  not hold it.
\<close>

lemma createMessage_key_of_96_characters:
  "\<exists>payload. createKeyPayload (replicate 96 0x41) = Inr payload \<and> length payload = 133 \<and>
     take 5 payload = [0x00, 0x00, 0x00, 0x80, 0x00] \<and>
     thenE (createMessage payload) parseResponse \<noteq> Inr payload"
  by (simp add: createKeyPayload_def createMessage_def parseResponse_def buffer_eval)

text \<open>
  C3. \<open>parseResponse\<close> on a buffer whose app-name length field can be read. If the
  declared app-name length leaves fewer than the two bytes of the payload length field,
  \<open>readUInt16LE\<close> throws a \<open>RangeError\<close>. Otherwise the payload length is read and
  the result is what \<open>slice\<close> finds: the declared number of bytes, or the bytes that
  remain when the buffer holds fewer. No read is out of bounds.
\<close>

theorem parseResponse_declared_lengths:
  assumes "readUInt16LE 1 response = Inr stringLen"
  shows "(length response < 5 + stringLen \<longrightarrow> parseResponse response = Inl RangeError) \<and>
         (5 + stringLen \<le> length response \<longrightarrow>
            (\<exists>payloadSize.
               readUInt16LE (3 + stringLen) response = Inr payloadSize \<and>
               parseResponse response = Inr (take payloadSize (drop (5 + stringLen) response)) \<and>
               length (take payloadSize (drop (5 + stringLen) response)) =
                 min payloadSize (length response - (5 + stringLen))))"
proof -
  have step: "parseResponse response =
      thenE (readUInt16LE (3 + stringLen) response) (\<lambda>payloadSize.
        Inr (slice_buffer (5 + stringLen) (payloadSize + (5 + stringLen)) response))"
  proof -
    have o1: "(1::nat) + 2 + stringLen = 3 + stringLen" by simp
    have o2: "3 + stringLen + 2 = 5 + stringLen" by simp
    show ?thesis
      unfolding parseResponse_def Let_def assms thenE_def by (simp only: sum.case o1 o2)
  qed
  have short: "parseResponse response = Inl RangeError" if "length response < 5 + stringLen"
    using that unfolding step by (simp add: thenE_def readUInt16LE_def)
  have long: "\<exists>payloadSize.
      readUInt16LE (3 + stringLen) response = Inr payloadSize \<and>
      parseResponse response = Inr (take payloadSize (drop (5 + stringLen) response)) \<and>
      length (take payloadSize (drop (5 + stringLen) response)) =
        min payloadSize (length response - (5 + stringLen))"
    if "5 + stringLen \<le> length response"
  proof -
    have "\<not> 3 + stringLen + 2 > length response" using that by simp
    then have "\<exists>payloadSize. readUInt16LE (3 + stringLen) response = Inr payloadSize"
      unfolding readUInt16LE_def by (simp only: if_False) blast
    then obtain payloadSize where r: "readUInt16LE (3 + stringLen) response = Inr payloadSize" ..
    have "parseResponse response = Inr (take payloadSize (drop (5 + stringLen) response))"
      unfolding step r by (simp add: thenE_def slice_buffer_def drop_take)
    with r show ?thesis by (simp add: min.commute)
  qed
  from short long show ?thesis by blast
qed

theorem parseResponse_declared_lengths_witness:
  "readUInt16LE 1 [0, 5, 0, 1] = Inr 5 \<and> length [0, 5, 0, 1 :: byte] < 5 + 5 \<and>
   parseResponse [0, 5, 0, 1] = Inl RangeError \<and>
   readUInt16LE 1 [0, 1, 0, 65, 3, 0, 7, 8] = Inr 1 \<and> 5 + 1 \<le> length [0, 1, 0, 65, 3, 0, 7, 8 :: byte] \<and>
   readUInt16LE (3 + 1) [0, 1, 0, 65, 3, 0, 7, 8] = Inr 3 \<and>
   parseResponse [0, 1, 0, 65, 3, 0, 7, 8] = Inr [7, 8]"
proof -
  have a: "readUInt16LE 1 [0, 5, 0, 1] = Inr 5" by (simp add: readUInt16LE_def)
  have b: "readUInt16LE 1 [0, 1, 0, 65, 3, 0, 7, 8] = Inr 1" by (simp add: readUInt16LE_def)
  have c: "readUInt16LE (3 + 1) [0, 1, 0, 65, 3, 0, 7, 8] = Inr 3" by (simp add: readUInt16LE_def)
  from parseResponse_declared_lengths [OF a] parseResponse_declared_lengths [OF b] a b c
  show ?thesis by auto
qed

text \<open>
  Claimed instead: a declared payload length beyond the end of the buffer is a failure.
  Here the declared length is 5 and one byte remains; the call returns that byte.
\<close>

theorem parseResponse_short_payload:
  "readUInt16LE 1 [0, 0, 0, 5, 0, 1] = Inr 0 \<and> readUInt16LE 3 [0, 0, 0, 5, 0, 1] = Inr 5 \<and>
   parseResponse [0, 0, 0, 5, 0, 1] = Inr [1]"
  by (simp add: parseResponse_def buffer_eval)

section \<open>The layout of the authentication payload\<close>

text \<open>
  C7. For a valid IP literal, \<open>createAuthPayload\<close> gives \<open>64 00\<close> followed by the
  base64 forms of the address, the identifier and the name, each behind the two bytes of
  its own byte length, provided each of the three base64 forms is at most 65535 bytes
  long. When one is longer, \<open>writeUInt16LE\<close> throws a \<open>RangeError\<close>.
\<close>

theorem createAuthPayload_layout:
  assumes "isIP ip \<noteq> 0"
  shows "createAuthPayload isIP ip uid name =
         (if length (Buffer_from (toBase64 ip)) \<le> 0xFFFF
             \<and> length (Buffer_from (toBase64 uid)) \<le> 0xFFFF
             \<and> length (Buffer_from (toBase64 name)) \<le> 0xFFFF
          then Inr ([0x64, 0x00]
              @ u16le (length (Buffer_from (toBase64 ip))) @ Buffer_from (toBase64 ip)
              @ u16le (length (Buffer_from (toBase64 uid))) @ Buffer_from (toBase64 uid)
              @ u16le (length (Buffer_from (toBase64 name))) @ Buffer_from (toBase64 name))
          else Inl RangeError)"
  using assms by (rule createAuthPayload_result)

theorem createAuthPayload_layout_witness:
  "isIP_v4only (js ''1.2.3.4'') \<noteq> 0 \<and>
   Buffer_from (toBase64 (js ''1.2.3.4'')) = [77, 83, 52, 121, 76, 106, 77, 117, 78, 65, 61, 61] \<and>
   Buffer_from (toBase64 (js ''id'')) = [97, 87, 81, 61] \<and>
   Buffer_from (toBase64 (js ''name'')) = [98, 109, 70, 116, 90, 81, 61, 61] \<and>
   createAuthPayload isIP_v4only (js ''1.2.3.4'') (js ''id'') (js ''name'') =
     Inr [100, 0, 12, 0, 77, 83, 52, 121, 76, 106, 77, 117, 78, 65, 61, 61,
          4, 0, 97, 87, 81, 61, 8, 0, 98, 109, 70, 116, 90, 81, 61, 61]"
proof -
  have ip: "isIP_v4only (js ''1.2.3.4'') \<noteq> 0" by (simp add: isIP_v4only_valid)
  have b1: "Buffer_from (toBase64 (js ''1.2.3.4'')) = [77, 83, 52, 121, 76, 106, 77, 117, 78, 65, 61, 61]"
    by (simp add: buffer_eval)
  have b2: "Buffer_from (toBase64 (js ''id'')) = [97, 87, 81, 61]" by (simp add: buffer_eval)
  have b3: "Buffer_from (toBase64 (js ''name'')) = [98, 109, 70, 116, 90, 81, 61, 61]"
    by (simp add: buffer_eval)
  show ?thesis
    using createAuthPayload_layout [of isIP_v4only "js ''1.2.3.4''" "js ''id''" "js ''name''"] ip
    unfolding b1 b2 b3 by (simp add: u16le_def)
qed

text \<open>
  Claimed instead: the layout for every identifier and name. An identifier of 49152
  characters has a base64 form of 65536 bytes, which no 16-bit length field holds.
\<close>

theorem createAuthPayload_long_id:
  "isIP_v4only (js ''1.2.3.4'') \<noteq> 0 \<and>
   createAuthPayload isIP_v4only (js ''1.2.3.4'') (replicate 49152 0x61) (js ''name'') = Inl RangeError"
proof -
  have ip: "isIP_v4only (js ''1.2.3.4'') \<noteq> 0" by (simp add: isIP_v4only_valid)
  have "ascii (replicate 49152 0x61)" by (simp add: ascii_def)
  then have "length (Buffer_from (replicate 49152 (0x61 :: 16 word))) = 49152"
    by (simp add: ascii_Buffer_from_length)
  then have "length (Buffer_from (toBase64 (replicate 49152 0x61))) = 65536"
    by (simp add: base64_bytes_length length_toBase64)
  then show ?thesis
    using createAuthPayload_result [of isIP_v4only "js ''1.2.3.4''" "replicate 49152 0x61" "js ''name''"] ip
    by simp
qed

section \<open>Connecting\<close>

text \<open>
  C2. Claimed: on an address that is no IP literal, \<open>connect\<close> fails before any socket
  operation. The promise is rejected, but the executor goes on: \<open>socket.connect\<close> and
  \<open>socket.on\<close> are called all the same.
\<close>

theorem connect_invalid_address_calls_socket:
  "isIP_v4only (js ''999.999.999.999'') = 0 \<and>
   connect isIP_v4only (js ''999.999.999.999'') (SamsungTVClient None) =
     (Rejected NotAValidIP,
      \<lparr>socket = [Connect 55000 (js ''999.999.999.999''), On ''error''], delay = 0\<rparr>)"
  by (simp add: connect_def isIP_v4only_invalid reject_def SamsungTVClient_def)

section \<open>The handshake\<close>

lemma authenticate_pending:
  assumes "authenticate isIP clientIP clientUID clientName this = (Pending, this')"
  shows "\<exists>message. thenE (createAuthPayload isIP clientIP clientUID clientName) createMessage
           = Inr message \<and> this' = this\<lparr>socket := socket this @ [Write message, On ''data'']\<rparr>"
  using assms
  by (auto simp: authenticate_def reject_def Let_def split: sum.splits if_splits promise.splits)

text \<open>
  C5. While the promise of an \<open>authenticate\<close> call is pending (the call has written its
  message and registered its listener), a chunk whose payload is \<open>64 00 01 00\<close>
  resolves the promise with \<open>'Success'\<close>.
\<close>

theorem granted_resolves:
  assumes "authenticate isIP clientIP clientUID clientName this = (Pending, this')"
    and "parseResponse data = Inr [0x64, 0x00, 0x01, 0x00]"
  shows "On ''data'' \<in> set (socket this') \<and> on_data data Pending = Inr (Resolved ''Success'')"
proof -
  from authenticate_pending [OF assms(1)] have "On ''data'' \<in> set (socket this')" by auto
  moreover have "on_data data Pending = Inr (Resolved ''Success'')"
    using assms(2) by (simp add: on_data_def thenE_def granted_def resolve_def)
  ultimately show ?thesis by simp
qed

theorem granted_resolves_witness:
  "(\<exists>this'. authenticate isIP_v4only (js ''1.2.3.4'') (js ''id'') (js ''name'')
        (snd (connect isIP_v4only (js ''1.2.3.5'') (SamsungTVClient None)))
      = (Pending, this')) \<and>
   parseResponse [0, 2, 0, 65, 66, 4, 0, 0x64, 0x00, 0x01, 0x00] = Inr [0x64, 0x00, 0x01, 0x00] \<and>
   on_data [0, 2, 0, 65, 66, 4, 0, 0x64, 0x00, 0x01, 0x00] Pending = Inr (Resolved ''Success'')"
proof -
  have p: "parseResponse [0, 2, 0, 65, 66, 4, 0, 0x64, 0x00, 0x01, 0x00] = Inr [0x64, 0x00, 0x01, 0x00]"
    by (simp add: parseResponse_def buffer_eval)
  from granted_resolves [OF authenticate_example p] authenticate_example p
  show ?thesis by simp
qed

text \<open>
  C6. While the promise of an \<open>authenticate\<close> call is pending, a chunk whose payload is
  \<open>64 00 00 00\<close> rejects it with \<open>'Access denied'\<close>, and one whose payload is
  \<open>65 00\<close> rejects it with \<open>'Timeout'\<close>.
\<close>

theorem denied_and_timeout_reject:
  assumes "authenticate isIP clientIP clientUID clientName this = (Pending, this')"
  shows "On ''data'' \<in> set (socket this') \<and>
         (parseResponse data = Inr [0x64, 0x00, 0x00, 0x00] \<longrightarrow>
            on_data data Pending = Inr (Rejected AccessDenied)) \<and>
         (parseResponse data = Inr [0x65, 0x00] \<longrightarrow>
            on_data data Pending = Inr (Rejected Timeout))"
proof -
  from authenticate_pending [OF assms] have "On ''data'' \<in> set (socket this')" by auto
  then show ?thesis
    by (simp add: on_data_def thenE_def granted_def denied_def timeout_def reject_def)
qed

theorem denied_and_timeout_reject_witness:
  "parseResponse [0, 2, 0, 65, 66, 4, 0, 0x64, 0x00, 0x00, 0x00] = Inr [0x64, 0x00, 0x00, 0x00] \<and>
   on_data [0, 2, 0, 65, 66, 4, 0, 0x64, 0x00, 0x00, 0x00] Pending = Inr (Rejected AccessDenied) \<and>
   parseResponse [0, 2, 0, 65, 66, 2, 0, 0x65, 0x00] = Inr [0x65, 0x00] \<and>
   on_data [0, 2, 0, 65, 66, 2, 0, 0x65, 0x00] Pending = Inr (Rejected Timeout)"
proof -
  have d: "parseResponse [0, 2, 0, 65, 66, 4, 0, 0x64, 0x00, 0x00, 0x00] = Inr [0x64, 0x00, 0x00, 0x00]"
    by (simp add: parseResponse_def buffer_eval)
  have t: "parseResponse [0, 2, 0, 65, 66, 2, 0, 0x65, 0x00] = Inr [0x65, 0x00]"
    by (simp add: parseResponse_def buffer_eval)
  from denied_and_timeout_reject [OF authenticate_example, of "[0, 2, 0, 65, 66, 4, 0, 0x64, 0x00, 0x00, 0x00]"]
    denied_and_timeout_reject [OF authenticate_example, of "[0, 2, 0, 65, 66, 2, 0, 0x65, 0x00]"] d t
  show ?thesis by simp
qed

text \<open>
  C9. While the promise of an \<open>authenticate\<close> call is pending, chunks whose payloads are
  none of \<open>granted\<close>, \<open>denied\<close> and \<open>timeout\<close> leave it pending, however many
  arrive; the payload \<open>await\<close> is one of them.
\<close>

theorem other_payloads_leave_pending:
  assumes "authenticate isIP clientIP clientUID clientName this = (Pending, this')"
    and "\<forall>data \<in> set chunks. \<exists>payload. parseResponse data = Inr payload \<and>
           payload \<noteq> [0x64, 0x00, 0x01, 0x00] \<and> payload \<noteq> [0x64, 0x00, 0x00, 0x00] \<and>
           payload \<noteq> [0x65, 0x00]"
  shows "on_data_all chunks Pending = Inr Pending \<and>
         await \<noteq> [0x64, 0x00, 0x01, 0x00] \<and> await \<noteq> [0x64, 0x00, 0x00, 0x00] \<and> await \<noteq> [0x65, 0x00]"
proof -
  have "on_data_all chunks Pending = Inr Pending"
    using assms(2)
  proof (induction chunks)
    case Nil
    show ?case by simp
  next
    case (Cons d ds)
    then obtain payload where "parseResponse d = Inr payload"
      "payload \<noteq> [0x64, 0x00, 0x01, 0x00]" "payload \<noteq> [0x64, 0x00, 0x00, 0x00]"
      "payload \<noteq> [0x65, 0x00]" by auto
    then have "on_data d Pending = Inr Pending"
      by (simp add: on_data_def thenE_def granted_def denied_def timeout_def)
    with Cons show ?case by (simp add: thenE_def)
  qed
  then show ?thesis by (simp add: await_def)
qed

theorem other_payloads_leave_pending_witness:
  "parseResponse [0, 2, 0, 65, 66, 6, 0, 0x0A, 0x00, 0x02, 0x00, 0x00, 0x00] = Inr await \<and>
   parseResponse [0, 2, 0, 65, 66, 1, 0, 0x64] = Inr [0x64] \<and>
   on_data_all [[0, 2, 0, 65, 66, 6, 0, 0x0A, 0x00, 0x02, 0x00, 0x00, 0x00],
                [0, 2, 0, 65, 66, 1, 0, 0x64],
                [0, 2, 0, 65, 66, 6, 0, 0x0A, 0x00, 0x02, 0x00, 0x00, 0x00]] Pending = Inr Pending"
proof -
  have a: "parseResponse [0, 2, 0, 65, 66, 6, 0, 0x0A, 0x00, 0x02, 0x00, 0x00, 0x00] = Inr await"
    by (simp add: parseResponse_def await_def buffer_eval)
  have u: "parseResponse [0, 2, 0, 65, 66, 1, 0, 0x64] = Inr [0x64]"
    by (simp add: parseResponse_def buffer_eval)
  have "\<forall>data \<in> set [[0, 2, 0, 65, 66, 6, 0, 0x0A, 0x00, 0x02, 0x00, 0x00, 0x00],
                [0, 2, 0, 65, 66, 1, 0, 0x64],
                [0, 2, 0, 65, 66, 6, 0, 0x0A, 0x00, 0x02, 0x00, 0x00, 0x00]].
          \<exists>payload. parseResponse data = Inr payload \<and>
           payload \<noteq> [0x64, 0x00, 0x01, 0x00] \<and> payload \<noteq> [0x64, 0x00, 0x00, 0x00] \<and>
           payload \<noteq> [0x65, 0x00]"
    using a u by (simp add: await_def)
  from other_payloads_leave_pending [OF authenticate_example this] a u
  show ?thesis by simp
qed

section \<open>Sending\<close>

lemma send_result:
  "send buffer w this = (Resolved (returned w), this\<lparr>socket := socket this @ [Write buffer]\<rparr>)"
  by (simp add: send_def resolve_def)

lemma sendMessage_result:
  "sendMessage message delay_arg w this =
     (if unhandled_error w this then Pending else Resolved (),
      if unhandled_error w this then None
      else Some (let d = (case delay_arg of None \<Rightarrow> delay this | Some d \<Rightarrow> d)
                 in if d \<noteq> 0 then d else delay this),
      this\<lparr>socket := socket this @ [Write message]\<rparr>)"
  by (simp add: sendMessage_def send_result resolve_def Let_def)

lemma createMessage_error: "createMessage payload = Inl e \<Longrightarrow> e = RangeError"
  by (auto simp: createMessage_def thenE_def Let_def writeUInt16LE_def write_utf8_def
      split: sum.splits if_splits)

text \<open>\<open>connect\<close> registers the listener for \<open>'error'\<close>, whatever the address is.\<close>

lemma connect_socket:
  "snd (connect isIP ip this) = this\<lparr>socket := socket this @ [Connect 55000 ip, On ''error'']\<rparr>"
  by (simp add: connect_def Let_def)

lemma connect_handles_errors: "\<not> unhandled_error w (snd (connect isIP ip this))"
  by (simp add: connect_socket unhandled_error_def)

lemma connect_example:
  "connect isIP_v4only (js ''1.2.3.4'') (SamsungTVClient None) =
     (Pending, \<lparr>socket = [Connect 55000 (js ''1.2.3.4''), On ''error''], delay = 0\<rparr>)"
  by (simp add: connect_def isIP_v4only_valid SamsungTVClient_def)

text \<open>
  C4. \<open>sendMessageByPayload\<close> looks at no session state and has no error of its own:
  on every client the key payload is framed and given to \<open>socket.write\<close>, and the
  promise is never rejected. On a client that has called \<open>connect\<close>, also one on which
  \<open>authenticate\<close> was never called or has not resolved, the promise resolves. Only on a
  client without a listener for \<open>'error'\<close> whose write fails does it stay pending.
\<close>

theorem key_send_in_any_state:
  assumes "createKeyPayload key = Inr payload"
    and "createMessage payload = Inr message"
  shows "(\<exists>timer. sendMessageByPayload payload delay_arg w this =
            Inr (if unhandled_error w this then Pending else Resolved (), timer,
                 this\<lparr>socket := socket this @ [Write message]\<rparr>)) \<and>
         (\<exists>timer. sendMessageByPayload payload delay_arg w (snd (connect isIP ip this)) =
            Inr (Resolved (), timer,
                 this\<lparr>socket := socket this @ [Connect 55000 ip, On ''error'', Write message]\<rparr>))"
proof -
  have any: "\<exists>timer. sendMessageByPayload payload delay_arg w c =
      Inr (if unhandled_error w c then Pending else Resolved (), timer,
           c\<lparr>socket := socket c @ [Write message]\<rparr>)" for c
    using assms(2) by (simp add: sendMessageByPayload_def thenE_def sendMessage_result Let_def)
  from any [of "snd (connect isIP ip this)"] any [of this]
  show ?thesis by (simp add: connect_handles_errors) (simp add: connect_socket)
qed

theorem key_send_in_any_state_witness:
  "createKeyPayload (js ''KEY_VOLUP'') = Inr [0, 0, 0, 12, 0, 83, 48, 86, 90, 88, 49, 90, 80, 84, 70, 86, 81] \<and>
   (\<exists>message timer. createMessage [0, 0, 0, 12, 0, 83, 48, 86, 90, 88, 49, 90, 80, 84, 70, 86, 81] = Inr message \<and>
      sendMessageByPayload [0, 0, 0, 12, 0, 83, 48, 86, 90, 88, 49, 90, 80, 84, 70, 86, 81] None
        \<lparr>returned = True, failed = False\<rparr>
        (snd (connect isIP_v4only (js ''1.2.3.4'') (SamsungTVClient None))) =
      Inr (Resolved (), timer,
           \<lparr>socket = [Connect 55000 (js ''1.2.3.4''), On ''error'', Write message], delay = 0\<rparr>))"
proof -
  have k: "createKeyPayload (js ''KEY_VOLUP'') = Inr [0, 0, 0, 12, 0, 83, 48, 86, 90, 88, 49, 90, 80, 84, 70, 86, 81]"
    by (simp add: createKeyPayload_def buffer_eval)
  obtain message where m: "createMessage [0, 0, 0, 12, 0, 83, 48, 86, 90, 88, 49, 90, 80, 84, 70, 86, 81] = Inr message"
    by (simp add: createMessage_def buffer_eval)
  from key_send_in_any_state [OF k m, of None "\<lparr>returned = True, failed = False\<rparr>"
      "SamsungTVClient None" isIP_v4only "js ''1.2.3.4''"] k m
  show ?thesis by (simp add: SamsungTVClient_def)
qed

text \<open>
  Claimed instead: a key sent before \<open>authenticate\<close> has resolved fails and writes
  nothing. On a client that has called \<open>connect\<close> and never \<open>authenticate\<close>, the key
  message is written and the promise resolves.
\<close>

theorem key_send_before_authenticate:
  "connect isIP_v4only (js ''1.2.3.4'') (SamsungTVClient None) =
     (Pending, \<lparr>socket = [Connect 55000 (js ''1.2.3.4''), On ''error''], delay = 0\<rparr>) \<and>
   createKeyPayload (js ''KEY_VOLDOWN'') =
     Inr [0, 0, 0, 16, 0, 83, 48, 86, 90, 88, 49, 90, 80, 84, 69, 82, 80, 86, 48, 52, 61] \<and>
   sendMessageByPayload
     [0, 0, 0, 16, 0, 83, 48, 86, 90, 88, 49, 90, 80, 84, 69, 82, 80, 86, 48, 52, 61] None
     \<lparr>returned = True, failed = False\<rparr>
     \<lparr>socket = [Connect 55000 (js ''1.2.3.4''), On ''error''], delay = 0\<rparr> =
   Inr (Resolved (), Some 0,
        \<lparr>socket = [Connect 55000 (js ''1.2.3.4''), On ''error'',
                   Write [0, 19, 0, 105, 112, 104, 111, 110, 101, 46, 105, 97, 112, 112, 46,
                   115, 97, 109, 115, 117, 110, 103, 21, 0, 0, 0, 0, 16, 0, 83, 48, 86, 90, 88,
                   49, 90, 80, 84, 69, 82, 80, 86, 48, 52, 61]],
         delay = 0\<rparr>)"
  by (simp add: connect_example key_payload_example sendMessageByPayload_def key_message_example
      thenE_def sendMessage_result unhandled_error_def)

text \<open>
  C8. \<open>send\<close> and \<open>sendMessage\<close> never reject, and a write that fails is never
  reported to their caller. When a listener for \<open>'error'\<close> is registered (\<open>connect\<close>
  registers the only one), \<open>sendMessage\<close> resolves once its timer has fired, whether
  the write has failed or not; when none is and the write fails, the promise stays
  pending. \<open>sendMessageByPayload\<close> either throws the \<open>RangeError\<close> of
  \<open>createMessage\<close> or does likewise.
\<close>

theorem send_never_rejects:
  "(\<forall>e. fst (send buffer w this) \<noteq> Rejected e) \<and>
   fst (sendMessage message delay_arg w this) =
     (if unhandled_error w this then Pending else Resolved ()) \<and>
   (case sendMessageByPayload payload delay_arg w this of
      Inl e \<Rightarrow> e = RangeError
    | Inr r \<Rightarrow> fst r = (if unhandled_error w this then Pending else Resolved ())) \<and>
   fst (sendMessage message delay_arg w (snd (connect isIP ip this))) = Resolved ()"
proof -
  have "fst (sendMessage message delay_arg w (snd (connect isIP ip this))) = Resolved ()"
    by (simp add: sendMessage_result connect_handles_errors)
  moreover have "case sendMessageByPayload payload delay_arg w this of
      Inl e \<Rightarrow> e = RangeError
    | Inr r \<Rightarrow> fst r = (if unhandled_error w this then Pending else Resolved ())"
    by (auto simp: sendMessage_result sendMessageByPayload_def thenE_def Let_def
        split: sum.splits dest: createMessage_error)
  ultimately show ?thesis by (simp add: send_result sendMessage_result)
qed

theorem send_never_rejects_witness:
  "failed \<lparr>returned = False, failed = True\<rparr> \<and>
   \<not> unhandled_error \<lparr>returned = False, failed = True\<rparr>
       \<lparr>socket = [Connect 55000 (js ''1.2.3.4''), On ''error''], delay = 0\<rparr> \<and>
   fst (sendMessage [1, 2] None \<lparr>returned = False, failed = True\<rparr>
       \<lparr>socket = [Connect 55000 (js ''1.2.3.4''), On ''error''], delay = 0\<rparr>) = Resolved () \<and>
   unhandled_error \<lparr>returned = False, failed = True\<rparr> (SamsungTVClient None) \<and>
   fst (sendMessage [1, 2] None \<lparr>returned = False, failed = True\<rparr> (SamsungTVClient None)) = Pending"
  using send_never_rejects [of "[1, 2]" "\<lparr>returned = False, failed = True\<rparr>"
      "\<lparr>socket = [Connect 55000 (js ''1.2.3.4''), On ''error''], delay = 0\<rparr>" "[1, 2]" None "[]"]
    send_never_rejects [of "[1, 2]" "\<lparr>returned = False, failed = True\<rparr>"
      "SamsungTVClient None" "[1, 2]" None "[]"]
  by (simp add: unhandled_error_def connect_called_def SamsungTVClient_def)

text \<open>
  Claimed instead: a failed socket write during a key submission is reported to the
  caller. On a client that has called \<open>connect\<close>, with a write that fails, the promise
  of the key submission resolves.
\<close>

theorem key_send_failed_write_resolves:
  "failed \<lparr>returned = False, failed = True\<rparr> \<and>
   snd (connect isIP_v4only (js ''1.2.3.4'') (SamsungTVClient None)) =
     \<lparr>socket = [Connect 55000 (js ''1.2.3.4''), On ''error''], delay = 0\<rparr> \<and>
   sendMessageByPayload
     [0, 0, 0, 16, 0, 83, 48, 86, 90, 88, 49, 90, 80, 84, 69, 82, 80, 86, 48, 52, 61] None
     \<lparr>returned = False, failed = True\<rparr>
     \<lparr>socket = [Connect 55000 (js ''1.2.3.4''), On ''error''], delay = 0\<rparr> =
   Inr (Resolved (), Some 0,
        \<lparr>socket = [Connect 55000 (js ''1.2.3.4''), On ''error'',
                   Write [0, 19, 0, 105, 112, 104, 111, 110, 101, 46, 105, 97, 112, 112, 46,
                   115, 97, 109, 115, 117, 110, 103, 21, 0, 0, 0, 0, 16, 0, 83, 48, 86, 90, 88,
                   49, 90, 80, 84, 69, 82, 80, 86, 48, 52, 61]],
         delay = 0\<rparr>)"
  by (simp add: connect_example sendMessageByPayload_def key_message_example thenE_def
      sendMessage_result unhandled_error_def)

text \<open>
  C10. The delay that \<open>sendMessage\<close> gives to \<open>setTimeout\<close> is the delay passed
  with the message when that is not 0, and the delay of the constructor otherwise: a
  delay of 0 passed with the message does not replace the constructor's. (No timer is
  set at all when the process has ended on an unhandled \<open>'error'\<close> of the socket; after
  \<open>connect\<close> that cannot be.)
\<close>

theorem sendMessage_delay:
  "fst (snd (sendMessage message (Some d) w this)) =
     (if unhandled_error w this then None else Some (if d \<noteq> 0 then d else delay this)) \<and>
   fst (snd (sendMessage message None w this)) =
     (if unhandled_error w this then None else Some (delay this)) \<and>
   fst (snd (sendMessage message (Some d) w (snd (connect isIP ip this)))) =
     Some (if d \<noteq> 0 then d else delay this) \<and>
   fst (snd (sendMessage message (Some 0) w (snd (connect isIP ip (SamsungTVClient (Some c)))))) =
     Some c"
proof -
  have "delay (snd (connect isIP ip c')) = delay c'" for c'
    by (simp add: connect_socket)
  then show ?thesis
    by (simp add: sendMessage_result connect_handles_errors SamsungTVClient_def)
qed

theorem sendMessage_delay_witness:
  "\<not> unhandled_error \<lparr>returned = True, failed = False\<rparr>
       \<lparr>socket = [Connect 55000 (js ''1.2.3.4''), On ''error''], delay = 500\<rparr> \<and>
   fst (snd (sendMessage [1, 2] (Some 0) \<lparr>returned = True, failed = False\<rparr>
       \<lparr>socket = [Connect 55000 (js ''1.2.3.4''), On ''error''], delay = 500\<rparr>)) = Some 500 \<and>
   fst (snd (sendMessage [1, 2] (Some 100) \<lparr>returned = True, failed = False\<rparr>
       \<lparr>socket = [Connect 55000 (js ''1.2.3.4''), On ''error''], delay = 500\<rparr>)) = Some 100 \<and>
   fst (snd (sendMessage [1, 2] (Some 0) \<lparr>returned = True, failed = False\<rparr>
       (snd (connect isIP_v4only (js ''1.2.3.4'') (SamsungTVClient (Some 500)))))) = Some 500"
  using sendMessage_delay [of "[1, 2]" 0 "\<lparr>returned = True, failed = False\<rparr>"
      "\<lparr>socket = [Connect 55000 (js ''1.2.3.4''), On ''error''], delay = 500\<rparr>"
      isIP_v4only "js ''1.2.3.4''" 500]
    sendMessage_delay [of "[1, 2]" 100 "\<lparr>returned = True, failed = False\<rparr>"
      "\<lparr>socket = [Connect 55000 (js ''1.2.3.4''), On ''error''], delay = 500\<rparr>"
      isIP_v4only "js ''1.2.3.4''" 500]
  by (simp add: unhandled_error_def)

end
